theory Spec2Isabelle
  imports Main
begin

section \<open>The Braille tutor backend (app.py)\<close>

text \<open>
  The embedding follows \<^verbatim>\<open>src/react based code/app.py\<close>: the module-level table
  \<^verbatim>\<open>braille_map\<close>, the request model \<^verbatim>\<open>BrailleQuery\<close> and the handler \<^verbatim>\<open>ask\<close>.
  Python \<^verbatim>\<open>str\<close> is modelled by \<^typ>\<open>string\<close>, Python \<^verbatim>\<open>int\<close> by \<^typ>\<open>int\<close>, a
  value that may be \<^verbatim>\<open>None\<close> by an option, a dict literal by an association list in
  the order of the literal, and a call that may raise by a sum whose left side is the
  exception.  The two module globals the handler reads are threaded through the handler
  as an explicit state; the requests sent to the completion service and the lines written
  with \<^verbatim>\<open>print\<close> are returned as logs.

  Two limits of the model.  A \<^typ>\<open>char\<close> is a code point below 256, so text is Python
  text over these code points.  Writing to standard output is taken to succeed, and the
  exceptions are those that are instances of \<^verbatim>\<open>Exception\<close>, the ones the clause
  \<^verbatim>\<open>except Exception\<close> of the handler takes; an interrupt of the process is not one
  of them.
\<close>

subsection \<open>Python text primitives\<close>

text \<open>\<^verbatim>\<open>str.isspace\<close> on the code points below 256, the characters \<^verbatim>\<open>str.strip()\<close> removes.\<close>

definition is_space :: "char \<Rightarrow> bool" where
  "is_space c = (of_char c \<in> {9, 10, 11, 12, 13, 28, 29, 30, 31, 32, 133, 160 :: nat})"

text \<open>\<^verbatim>\<open>s.strip()\<close>: leading and trailing whitespace removed.\<close>

definition strip :: "string \<Rightarrow> string" where
  "strip s = rev (dropWhile is_space (rev (dropWhile is_space s)))"

text \<open>\<^verbatim>\<open>sep.join(parts)\<close>.\<close>

fun join :: "string \<Rightarrow> string list \<Rightarrow> string" where
  "join sep [] = []"
| "join sep [x] = x"
| "join sep (x # y # ys) = x @ sep @ join sep (y # ys)"

text \<open>\<^verbatim>\<open>str(n)\<close> for an int: decimal digits, with a minus sign below zero.\<close>

definition digit_char :: "nat \<Rightarrow> char" where
  "digit_char d = char_of (48 + d)"

function str_nat :: "nat \<Rightarrow> string" where
  "str_nat n = (if n < 10 then [digit_char n] else str_nat (n div 10) @ [digit_char (n mod 10)])"
  by pat_completeness auto
termination
  by (relation "measure (\<lambda>n. n)") auto

definition str_int :: "int \<Rightarrow> string" where
  "str_int i = (if i < 0 then CHR ''-'' # str_nat (nat (- i)) else str_nat (nat i))"

text \<open>
  \<^verbatim>\<open>repr\<close> of a str, as an f-string prints the keys and values of a dict: the text
  between single quotes.  This is Python's output for text without quotes, backslashes
  and non-printable characters, which is all the two tables of the module hold.
\<close>

definition quote :: string where
  "quote = [CHR 0x27]"

definition repr_str :: "string \<Rightarrow> string" where
  "repr_str s = quote @ s @ quote"

definition repr_int_list :: "int list \<Rightarrow> string" where
  "repr_int_list ds = ''['' @ join '', '' (map str_int ds) @ '']''"

text \<open>An f-string field holding a value that may be \<^verbatim>\<open>None\<close>.\<close>

definition str_opt :: "string option \<Rightarrow> string" where
  "str_opt v = (case v of None \<Rightarrow> ''None'' | Some s \<Rightarrow> s)"

subsection \<open>The Braille table and the dot labels\<close>

type_synonym braille_table = "(string \<times> int list) list"

text \<open>Lines 57 to 65: the dict literal \<^verbatim>\<open>braille_map\<close>.\<close>

definition braille_map :: braille_table where
  "braille_map =
    [(''A'', [1]), (''B'', [1, 2]), (''C'', [1, 4]), (''D'', [1, 4, 5]), (''E'', [1, 5]),
     (''F'', [1, 2, 4]), (''G'', [1, 2, 4, 5]), (''H'', [1, 2, 5]), (''I'', [2, 4]),
     (''J'', [2, 4, 5]), (''K'', [1, 3]), (''L'', [1, 2, 3]), (''M'', [1, 3, 4]),
     (''N'', [1, 3, 4, 5]), (''O'', [1, 3, 5]), (''P'', [1, 2, 3, 4]), (''Q'', [1, 2, 3, 4, 5]),
     (''R'', [1, 2, 3, 5]), (''S'', [2, 3, 4]), (''T'', [2, 3, 4, 5]), (''U'', [1, 3, 6]),
     (''V'', [1, 2, 3, 6]), (''W'', [2, 4, 5, 6]), (''X'', [1, 3, 4, 6]),
     (''Y'', [1, 3, 4, 5, 6]), (''Z'', [1, 3, 5, 6])]"

text \<open>The letters A to Z (code points 65 to 90) and a to z (97 to 122), in order.\<close>

definition uppercase_letters :: string where
  "uppercase_letters = ''ABCDEFGHIJKLMNOPQRSTUVWXYZ''"

definition lowercase_letters :: string where
  "lowercase_letters = ''abcdefghijklmnopqrstuvwxyz''"

text \<open>Lines 79 to 86: the dict literal bound to the local \<^verbatim>\<open>dot_positions\<close> on every call.\<close>

definition dot_positions :: "(int \<times> string) list" where
  "dot_positions =
    [(1, ''top left first dot''),
     (2, ''middle left second dot''),
     (3, ''bottom left third dot''),
     (4, ''top right fourth dot''),
     (5, ''middle right fifth dot''),
     (6, ''bottom right sixth dot'')]"

text \<open>\<^verbatim>\<open>d.get(key, default)\<close>.\<close>

definition dict_get :: "('k \<times> 'v) list \<Rightarrow> 'k \<Rightarrow> 'v \<Rightarrow> 'v" where
  "dict_get d key dflt = (case map_of d key of None \<Rightarrow> dflt | Some v \<Rightarrow> v)"

text \<open>How an f-string prints the two dicts.\<close>

definition repr_braille_map :: "braille_table \<Rightarrow> string" where
  "repr_braille_map d =
     ''{'' @ join '', '' (map (\<lambda>(k, v). repr_str k @ '': '' @ repr_int_list v) d) @ ''}''"

definition repr_dot_positions :: "(int \<times> string) list \<Rightarrow> string" where
  "repr_dot_positions d =
     ''{'' @ join '', '' (map (\<lambda>(k, v). str_int k @ '': '' @ repr_str v) d) @ ''}''"

subsection \<open>The request model, the completion service and the module state\<close>

text \<open>Lines 67 to 69: \<^verbatim>\<open>targetLetter\<close> defaults to \<^verbatim>\<open>None\<close>.\<close>

record BrailleQuery =
  input :: string
  targetLetter :: "string option"

text \<open>
  What \<^verbatim>\<open>ask\<close> returns: a dict with the key \<^verbatim>\<open>response\<close> and, on the handler's
  path only, the key \<^verbatim>\<open>error\<close>.  A key that is not there is \<^const>\<open>None\<close>.
\<close>

record reply =
  response :: string
  error :: "string option"

text \<open>
  The keyword arguments of \<^verbatim>\<open>client.chat.completions.create\<close>.  The messages are
  pairs of role and content.  \<^verbatim>\<open>stream\<close> is \<^const>\<open>None\<close> when the argument is not
  passed, which asks the service for one complete answer.
\<close>

record request =
  model :: string
  messages :: "(string \<times> string) list"
  max_tokens :: int
  stream :: "bool option"

text \<open>The part of the returned completion the handler reads: \<^verbatim>\<open>choices[0].message.content\<close>.\<close>

record chat_message =
  content :: "string option"

record choice =
  message :: chat_message

record completion =
  choices :: "choice list"

text \<open>
  The exceptions of the model, all of them instances of Python's \<^verbatim>\<open>Exception\<close>:
  the two the handler's own expression on line 106 can raise, and whatever the
  completion call raises, kept as the text \<^verbatim>\<open>str(e)\<close> gives.
\<close>

datatype exn = IndexError | AttributeError | CallFailed string

definition str_exn :: "exn \<Rightarrow> string" where
  "str_exn e =
     (case e of
        IndexError \<Rightarrow> ''list index out of range''
      | AttributeError \<Rightarrow> quote @ ''NoneType'' @ quote @ '' object has no attribute '' @ quote @ ''strip'' @ quote
      | CallFailed msg \<Rightarrow> msg)"

text \<open>A client is what one call of \<^verbatim>\<open>client.chat.completions.create\<close> does with a request.\<close>

type_synonym client = "request \<Rightarrow> exn + completion"

text \<open>The module globals the handler reads.\<close>

record module_globals =
  braille_map_var :: braille_table
  client_var :: "client option"

text \<open>
  Lines 15 to 23: the client exists when the key is set and not empty and the
  constructor does not raise.
\<close>

definition load_client :: "string option \<Rightarrow> (string \<Rightarrow> exn + client) \<Rightarrow> client option" where
  "load_client api_key OpenAI =
     (case api_key of
        None \<Rightarrow> None
      | Some k \<Rightarrow>
          if k \<noteq> [] then (case OpenAI k of Inl e \<Rightarrow> None | Inr c \<Rightarrow> Some c) else None)"

definition module_state :: "client option \<Rightarrow> module_globals" where
  "module_state cl = \<lparr>braille_map_var = braille_map, client_var = cl\<rparr>"

subsection \<open>The handler\<close>

text \<open>Lines 109 and 118: \<^verbatim>\<open>braille_map.get(target_letter, [1]) if target_letter else [1]\<close>.\<close>

definition lookup_dots :: "braille_table \<Rightarrow> string option \<Rightarrow> int list" where
  "lookup_dots bm target_letter =
     (case target_letter of
        None \<Rightarrow> [1]
      | Some t \<Rightarrow> if t \<noteq> [] then dict_get bm t [1] else [1])"

text \<open>\<^verbatim>\<open>target_letter or 'unknown'\<close>.\<close>

definition target_or_unknown :: "string option \<Rightarrow> string" where
  "target_or_unknown target_letter =
     (case target_letter of
        None \<Rightarrow> ''unknown''
      | Some t \<Rightarrow> if t \<noteq> [] then t else ''unknown'')"

text \<open>Lines 109 to 110, and again lines 118 to 119: the fallback text.\<close>

definition fallback_response :: "braille_table \<Rightarrow> string option \<Rightarrow> string" where
  "fallback_response bm target_letter =
     (let dots = lookup_dots bm target_letter
      in ''For '' @ target_or_unknown target_letter @ '', press '' @
         join '', '' (map (\<lambda>d. ''dot '' @ str_int d) dots) @ ''.'')"

text \<open>Lines 89 to 99: the prompt.\<close>

definition prompt :: "braille_table \<Rightarrow> string \<Rightarrow> string option \<Rightarrow> string" where
  "prompt bm user_input target_letter =
     ''You are a patient, friendly Braille tutor for blind users. The Braille map is: '' @
       repr_braille_map bm @ ''. '' @
     ''User asked: '' @ quote @ user_input @ quote @ ''. '' @
     ''Target letter or word: '' @ quote @ str_opt target_letter @ quote @ ''. '' @
     ''Generate a concise, conversational response in simple language. '' @
     ''For a single letter (e.g., 'A'), describe its dots using these positions: '' @
       repr_dot_positions dot_positions @ ''. '' @
     ''Example: 'For A, press the top left first dot.' '' @
     ''For a word (e.g., 'CAT'), describe each letter's dots, e.g., 'C is top left first dot and top right fourth dot, A is top left first dot, T is middle left second dot, bottom left third dot, and middle right fifth dot.' '' @
     ''For 'What is the 6-dot cell?', say: 'The 6-dot Braille cell has: Dot 1 is top left, Dot 2 is middle left, Dot 3 is bottom left, Dot 4 is top right, Dot 5 is middle right, Dot 6 is bottom right.' '' @
     ''Vary the phrasing to sound natural and engaging. Keep it under 100 words.''"

text \<open>Lines 101 to 105: the arguments of the one completion call.\<close>

definition completion_request :: "module_globals \<Rightarrow> BrailleQuery \<Rightarrow> request" where
  "completion_request g query =
     \<lparr>model = ''gpt-4o-mini'',
      messages = [(''user'', prompt (braille_map_var g) (input query) (targetLetter query))],
      max_tokens = 100,
      stream = None\<rparr>"

text \<open>
  Lines 101 to 106: the call, then \<^verbatim>\<open>completion.choices[0].message.content.strip()\<close>.
  Indexing an empty list raises IndexError; \<^verbatim>\<open>strip\<close> on a content that is
  \<^verbatim>\<open>None\<close> raises AttributeError.
\<close>

definition llm_response :: "client \<Rightarrow> request \<Rightarrow> exn + string" where
  "llm_response create req =
     (case create req of
        Inl e \<Rightarrow> Inl e
      | Inr completion \<Rightarrow>
          (case choices completion of
             [] \<Rightarrow> Inl IndexError
           | c # _ \<Rightarrow>
               (case content (message c) of
                  None \<Rightarrow> Inl AttributeError
                | Some text \<Rightarrow> Inr (strip text))))"

text \<open>
  One run of the handler: what it gives back to its caller (\<^const>\<open>Inl\<close> would be an
  exception leaving \<^verbatim>\<open>ask\<close>), the requests it sent, the lines it printed, the module
  globals when it returns, and the value of its local \<^verbatim>\<open>dot_positions\<close> when it
  returns.
\<close>

record ask_run =
  result :: "exn + reply"
  sent :: "request list"
  printed :: "string list"
  globals_after :: module_globals
  dot_positions_after :: "(int \<times> string) list"

text \<open>Line 76.\<close>

definition received_line :: "BrailleQuery \<Rightarrow> string" where
  "received_line query =
     ''Received: input='' @ quote @ input query @ quote @
     '', target_letter='' @ quote @ str_opt (targetLetter query) @ quote"

text \<open>
  Lines 74 to 113, the body of the \<^verbatim>\<open>try\<close>: the requests sent, and the response
  text or the exception raised.
\<close>

definition ask_try :: "module_globals \<Rightarrow> BrailleQuery \<Rightarrow> request list \<times> (exn + string)" where
  "ask_try g query =
     (case client_var g of
        Some create \<Rightarrow>
          (let req = completion_request g query in ([req], llm_response create req))
      | None \<Rightarrow>
          ([], Inr (fallback_response (braille_map_var g) (targetLetter query))))"

text \<open>
  Lines 71 to 120.  \<^verbatim>\<open>except Exception\<close> takes every exception of the model; its
  clause builds the fallback text again and adds the key \<^verbatim>\<open>error\<close>.
\<close>

definition ask :: "module_globals \<Rightarrow> BrailleQuery \<Rightarrow> ask_run" where
  "ask g query =
     (case ask_try g query of
        (reqs, Inr text) \<Rightarrow>
          \<lparr>result = Inr \<lparr>response = text, error = None\<rparr>,
           sent = reqs,
           printed = [received_line query, ''Response: '' @ text],
           globals_after = g,
           dot_positions_after = dot_positions\<rparr>
      | (reqs, Inl e) \<Rightarrow>
          (let error_msg = ''Error in /ask: '' @ str_exn e;
               fallback = fallback_response (braille_map_var g) (targetLetter query)
           in \<lparr>result = Inr \<lparr>response = fallback, error = Some error_msg\<rparr>,
               sent = reqs,
               printed = [received_line query, error_msg],
               globals_after = g,
               dot_positions_after = dot_positions\<rparr>))"

section \<open>Properties\<close>

subsection \<open>Auxiliary facts\<close>

lemma str_int_1: "str_int 1 = ''1''"
  by code_simp

lemma uppercase_code_point_list:
  "map (of_char :: char \<Rightarrow> nat) uppercase_letters = [65..<91]"
  by (simp add: uppercase_letters_def)

lemma uppercase_code_points:
  "set uppercase_letters = {c. 65 \<le> (of_char c :: nat) \<and> (of_char c :: nat) \<le> 90}"
proof (intro equalityI subsetI)
  fix c assume "c \<in> set uppercase_letters"
  then show "c \<in> {c. 65 \<le> (of_char c :: nat) \<and> (of_char c :: nat) \<le> 90}"
    by (auto simp: uppercase_letters_def)
next
  fix c assume "c \<in> {c. 65 \<le> (of_char c :: nat) \<and> (of_char c :: nat) \<le> 90}"
  then have "(of_char c :: nat) \<in> set [65..<91]"
    by (simp del: upt_rec_numeral)
  then have "(of_char c :: nat) \<in> set (map (of_char :: char \<Rightarrow> nat) uppercase_letters)"
    by (simp only: uppercase_code_point_list)
  then have "(of_char c :: nat) \<in> of_char ` set uppercase_letters" by simp
  then obtain d where "d \<in> set uppercase_letters" "(of_char c :: nat) = of_char d" by blast
  then show "c \<in> set uppercase_letters" by (simp only: of_char_eq_iff)
qed

lemma map_of_braille_map_key:
  "map_of braille_map t = Some ds \<Longrightarrow> t \<in> (\<lambda>c. [c]) ` set uppercase_letters"
  by (simp add: braille_map_def uppercase_letters_def split: if_splits)

lemma map_of_braille_map_miss:
  "t \<notin> (\<lambda>c. [c]) ` set uppercase_letters \<Longrightarrow> map_of braille_map t = None"
  using map_of_braille_map_key by (cases "map_of braille_map t") auto




lemma dict_get_empty_key: "dict_get braille_map [] [1] = [1]"
  by (simp add: dict_get_def braille_map_def)

subsection \<open>The handler always answers\<close>


subsection \<open>The fallback text\<close>

text \<open>
  C2.  With no client, for every query the reply is exactly
  \<^verbatim>\<open>For T, press dot d1, dot d2, ... .\<close> where \<^verbatim>\<open>T\<close> is the target when one is given
  (a given target that is the empty text counts as not given, as in Python's
  \<^verbatim>\<open>target_letter or 'unknown'\<close>) and \<^verbatim>\<open>unknown\<close> otherwise, and the dots are those
  of the target in the Braille table, \<^verbatim>\<open>[1]\<close> when it is not a key.  In particular the
  target \<^verbatim>\<open>Z\<close> gives \<^verbatim>\<open>For Z, press dot 1, dot 3, dot 5, dot 6.\<close> and no target gives
  \<^verbatim>\<open>For unknown, press dot 1.\<close>
\<close>

theorem ask_without_client:
  "result (ask (module_state None) query) =
     Inr \<lparr>response =
            ''For '' @
            (case targetLetter query of
               None \<Rightarrow> ''unknown''
             | Some t \<Rightarrow> if t = [] then ''unknown'' else t) @
            '', press '' @
            join '', ''
              (map (\<lambda>d. ''dot '' @ str_int d)
                 (case targetLetter query of
                    None \<Rightarrow> [1]
                  | Some t \<Rightarrow> dict_get braille_map t [1])) @
            ''.'',
          error = None\<rparr>
   \<and> result (ask (module_state None) \<lparr>input = ''tell me about CAT'', targetLetter = Some ''Z''\<rparr>) =
       Inr \<lparr>response = ''For Z, press dot 1, dot 3, dot 5, dot 6.'', error = None\<rparr>
   \<and> result (ask (module_state None) \<lparr>input = user_input, targetLetter = None\<rparr>) =
       Inr \<lparr>response = ''For unknown, press dot 1.'', error = None\<rparr>"
proof (intro conjI)
  show "result (ask (module_state None) query) =
     Inr \<lparr>response =
            ''For '' @
            (case targetLetter query of
               None \<Rightarrow> ''unknown''
             | Some t \<Rightarrow> if t = [] then ''unknown'' else t) @
            '', press '' @
            join '', ''
              (map (\<lambda>d. ''dot '' @ str_int d)
                 (case targetLetter query of
                    None \<Rightarrow> [1]
                  | Some t \<Rightarrow> dict_get braille_map t [1])) @
            ''.'',
          error = None\<rparr>"
    by (simp add: ask_def ask_try_def module_state_def fallback_response_def
        lookup_dots_def target_or_unknown_def dict_get_empty_key Let_def split: option.split)
  show "result (ask (module_state None) \<lparr>input = ''tell me about CAT'', targetLetter = Some ''Z''\<rparr>) =
       Inr \<lparr>response = ''For Z, press dot 1, dot 3, dot 5, dot 6.'', error = None\<rparr>"
    by code_simp
  show "result (ask (module_state None) \<lparr>input = user_input, targetLetter = None\<rparr>) =
       Inr \<lparr>response = ''For unknown, press dot 1.'', error = None\<rparr>"
    by (simp add: ask_def ask_try_def module_state_def fallback_response_def
        lookup_dots_def target_or_unknown_def str_int_1 Let_def)
qed

subsection \<open>The table lookup\<close>

text \<open>
  C3.  For the letters A to Z, in this order, the lookup gives the dot lists of the
  table, none of them empty; for every text that is not one of these 26 single letters,
  and for no target at all, it gives the default \<^verbatim>\<open>[1]\<close>.
\<close>

theorem lookup_dots_table:
  "map (\<lambda>c. lookup_dots braille_map (Some [c])) uppercase_letters =
     [[1], [1, 2], [1, 4], [1, 4, 5], [1, 5], [1, 2, 4], [1, 2, 4, 5], [1, 2, 5], [2, 4],
      [2, 4, 5], [1, 3], [1, 2, 3], [1, 3, 4], [1, 3, 4, 5], [1, 3, 5], [1, 2, 3, 4],
      [1, 2, 3, 4, 5], [1, 2, 3, 5], [2, 3, 4], [2, 3, 4, 5], [1, 3, 6], [1, 2, 3, 6],
      [2, 4, 5, 6], [1, 3, 4, 6], [1, 3, 4, 5, 6], [1, 3, 5, 6]]
   \<and> (\<forall>c \<in> set uppercase_letters. lookup_dots braille_map (Some [c]) \<noteq> [])
   \<and> (\<forall>t. t \<notin> (\<lambda>c. [c]) ` set uppercase_letters \<longrightarrow> lookup_dots braille_map (Some t) = [1])
   \<and> lookup_dots braille_map None = [1]"
proof (intro conjI allI impI)
  show "map (\<lambda>c. lookup_dots braille_map (Some [c])) uppercase_letters =
     [[1], [1, 2], [1, 4], [1, 4, 5], [1, 5], [1, 2, 4], [1, 2, 4, 5], [1, 2, 5], [2, 4],
      [2, 4, 5], [1, 3], [1, 2, 3], [1, 3, 4], [1, 3, 4, 5], [1, 3, 5], [1, 2, 3, 4],
      [1, 2, 3, 4, 5], [1, 2, 3, 5], [2, 3, 4], [2, 3, 4, 5], [1, 3, 6], [1, 2, 3, 6],
      [2, 4, 5, 6], [1, 3, 4, 6], [1, 3, 4, 5, 6], [1, 3, 5, 6]]"
    by (simp add: lookup_dots_def dict_get_def braille_map_def uppercase_letters_def)
  show "\<forall>c \<in> set uppercase_letters. lookup_dots braille_map (Some [c]) \<noteq> []"
    by (simp add: lookup_dots_def dict_get_def braille_map_def uppercase_letters_def)
  show "lookup_dots braille_map None = [1]"
    by (simp add: lookup_dots_def)
next
  fix t :: string
  assume "t \<notin> (\<lambda>c. [c]) ` set uppercase_letters"
  then have "map_of braille_map t = None" by (rule map_of_braille_map_miss)
  then show "lookup_dots braille_map (Some t) = [1]"
    by (simp add: lookup_dots_def dict_get_def)
qed

theorem lookup_dots_table_witness:
  "''CAT'' \<notin> (\<lambda>c. [c]) ` set uppercase_letters
   \<and> lookup_dots braille_map (Some ''CAT'') = [1]
   \<and> CHR ''Z'' \<in> set uppercase_letters
   \<and> lookup_dots braille_map (Some ''Z'') \<noteq> []"
proof -
  have a: "''CAT'' \<notin> (\<lambda>c. [c]) ` set uppercase_letters" by auto
  have b: "CHR ''Z'' \<in> set uppercase_letters" by (simp add: uppercase_letters_def)
  from lookup_dots_table a b show ?thesis by blast
qed

subsection \<open>The two exits of the handler\<close>

lemma ask_try_no_client:
  "client_var g = None \<Longrightarrow>
   ask_try g query = ([], Inr (fallback_response (braille_map_var g) (targetLetter query)))"
  by (simp add: ask_try_def)

lemma ask_try_client:
  "client_var g = Some create \<Longrightarrow>
   ask_try g query = ([completion_request g query], llm_response create (completion_request g query))"
  by (simp add: ask_try_def Let_def)

lemma ask_returned:
  "ask_try g query = (reqs, Inr text) \<Longrightarrow>
   ask g query =
     \<lparr>result = Inr \<lparr>response = text, error = None\<rparr>, sent = reqs,
      printed = [received_line query, ''Response: '' @ text],
      globals_after = g, dot_positions_after = dot_positions\<rparr>"
  by (simp add: ask_def)

lemma ask_handled:
  "ask_try g query = (reqs, Inl e) \<Longrightarrow>
   ask g query =
     \<lparr>result = Inr \<lparr>response = fallback_response (braille_map_var g) (targetLetter query),
                     error = Some (''Error in /ask: '' @ str_exn e)\<rparr>,
      sent = reqs,
      printed = [received_line query, ''Error in /ask: '' @ str_exn e],
      globals_after = g, dot_positions_after = dot_positions\<rparr>"
  by (simp add: ask_def Let_def)



subsection \<open>Letter case\<close>

text \<open>
  C5, as claimed: the lookup treats a lowercase letter as its uppercase letter.  It does
  not: \<^verbatim>\<open>b\<close> gets the default, \<^verbatim>\<open>B\<close> its own dots.
\<close>

theorem lookup_lowercase_counterexample:
  "lookup_dots braille_map (Some ''b'') = [1]
   \<and> lookup_dots braille_map (Some ''B'') = [1, 2]
   \<and> lookup_dots braille_map (Some ''b'') \<noteq> lookup_dots braille_map (Some ''B'')"
  by (simp add: lookup_dots_def dict_get_def braille_map_def)

text \<open>
  C5, amended.  The lookup compares keys exactly, with no change of case: every lowercase
  letter a to z gets the default \<^verbatim>\<open>[1]\<close>, which is the list of its uppercase letter
  for \<^verbatim>\<open>a\<close> only; and every text that is not one of the 26 uppercase single letters
  gets the default.
\<close>

theorem lookup_case_sensitive:
  "(\<forall>(l, u) \<in> set (zip lowercase_letters uppercase_letters).
      lookup_dots braille_map (Some [l]) = [1]
      \<and> ((lookup_dots braille_map (Some [l]) = lookup_dots braille_map (Some [u])) = (l = CHR ''a'')))
   \<and> (\<forall>t. t \<notin> (\<lambda>c. [c]) ` set uppercase_letters \<longrightarrow> lookup_dots braille_map (Some t) = [1])"
proof (intro conjI allI impI)
  show "\<forall>(l, u) \<in> set (zip lowercase_letters uppercase_letters).
      lookup_dots braille_map (Some [l]) = [1]
      \<and> ((lookup_dots braille_map (Some [l]) = lookup_dots braille_map (Some [u])) = (l = CHR ''a''))"
    by (simp add: lowercase_letters_def uppercase_letters_def lookup_dots_def dict_get_def
        braille_map_def)
next
  fix t :: string
  assume "t \<notin> (\<lambda>c. [c]) ` set uppercase_letters"
  then have "map_of braille_map t = None" by (rule map_of_braille_map_miss)
  then show "lookup_dots braille_map (Some t) = [1]"
    by (simp add: lookup_dots_def dict_get_def)
qed

theorem lookup_case_sensitive_witness:
  "(CHR ''b'', CHR ''B'') \<in> set (zip lowercase_letters uppercase_letters)
   \<and> lookup_dots braille_map (Some ''b'') = [1]
   \<and> lookup_dots braille_map (Some ''b'') \<noteq> lookup_dots braille_map (Some ''B'')
   \<and> ''b'' \<notin> (\<lambda>c. [c]) ` set uppercase_letters"
proof -
  have m: "(CHR ''b'', CHR ''B'') \<in> set (zip lowercase_letters uppercase_letters)"
    by (simp add: lowercase_letters_def uppercase_letters_def)
  have n: "''b'' \<notin> (\<lambda>c. [c]) ` set uppercase_letters"
    by (auto simp: uppercase_letters_def)
  from lookup_case_sensitive have
    "\<forall>(l, u) \<in> set (zip lowercase_letters uppercase_letters).
      lookup_dots braille_map (Some [l]) = [1]
      \<and> ((lookup_dots braille_map (Some [l]) = lookup_dots braille_map (Some [u])) = (l = CHR ''a''))"
    by (rule conjunct1)
  with m have "lookup_dots braille_map (Some ''b'') = [1]
      \<and> ((lookup_dots braille_map (Some ''b'') = lookup_dots braille_map (Some ''B'')) = (CHR ''b'' = CHR ''a''))"
    by blast
  moreover have "CHR ''b'' \<noteq> CHR ''a''"
    by simp
  ultimately have "lookup_dots braille_map (Some ''b'') = [1]
      \<and> lookup_dots braille_map (Some ''b'') \<noteq> lookup_dots braille_map (Some ''B'')"
    by blast
  with m n show ?thesis by blast
qed

subsection \<open>The invariant of the table\<close>

text \<open>
  C6.  The table has exactly one entry for each of the letters A to Z (code points 65 to
  90), 26 in all and no other key, and every dot list is non-empty, without duplicates,
  within 1 to 6 and ascending.
\<close>

theorem braille_map_invariant:
  "map fst braille_map = map (\<lambda>c. [c]) uppercase_letters
   \<and> distinct (map fst braille_map)
   \<and> length braille_map = 26
   \<and> set (map fst braille_map) = {[c] | c. 65 \<le> (of_char c :: nat) \<and> (of_char c :: nat) \<le> 90}
   \<and> (\<forall>(k, ds) \<in> set braille_map.
        ds \<noteq> [] \<and> distinct ds \<and> set ds \<subseteq> {1..6} \<and> sorted_wrt (<) ds)"
proof (intro conjI)
  show keys: "map fst braille_map = map (\<lambda>c. [c]) uppercase_letters"
    by (simp add: braille_map_def uppercase_letters_def)
  show "distinct (map fst braille_map)"
    by (simp add: braille_map_def)
  show "length braille_map = 26"
    by (simp add: braille_map_def)
  have "set (map fst braille_map) = (\<lambda>c. [c]) ` set uppercase_letters"
    unfolding keys by simp
  also have "\<dots> = {[c] | c. 65 \<le> (of_char c :: nat) \<and> (of_char c :: nat) \<le> 90}"
    unfolding uppercase_code_points by auto
  finally show "set (map fst braille_map) = {[c] | c. 65 \<le> (of_char c :: nat) \<and> (of_char c :: nat) \<le> 90}" .
  show "\<forall>(k, ds) \<in> set braille_map.
        ds \<noteq> [] \<and> distinct ds \<and> set ds \<subseteq> {1..6} \<and> sorted_wrt (<) ds"
    by (simp add: braille_map_def)
qed

theorem braille_map_invariant_witness:
  "(''Z'', [1, 3, 5, 6]) \<in> set braille_map
   \<and> [1, 3, 5, 6] \<noteq> ([] :: int list) \<and> distinct [1, 3, 5, 6 :: int]
   \<and> set [1, 3, 5, 6 :: int] \<subseteq> {1..6} \<and> sorted_wrt (<) [1, 3, 5, 6 :: int]
   \<and> length braille_map = 26"
proof -
  have m: "(''Z'', [1, 3, 5, 6]) \<in> set braille_map"
    by (simp add: braille_map_def)
  from braille_map_invariant have
    "\<forall>(k, ds) \<in> set braille_map.
        ds \<noteq> [] \<and> distinct ds \<and> set ds \<subseteq> {1..6} \<and> sorted_wrt (<) ds"
    and len: "length braille_map = 26"
    by blast+
  with m have "[1, 3, 5, 6] \<noteq> ([] :: int list) \<and> distinct [1, 3, 5, 6 :: int]
   \<and> set [1, 3, 5, 6 :: int] \<subseteq> {1..6} \<and> sorted_wrt (<) [1, 3, 5, 6 :: int]"
    by blast
  with m len show ?thesis by blast
qed

subsection \<open>The completion path\<close>



subsection \<open>Targets that are no table key\<close>

text \<open>
  C8.  On the fallback path (no client, or a completion that failed), a target of more
  than one character is looked up whole, is no key of the table, and the reply is
  \<^verbatim>\<open>For word, press dot 1.\<close> with no dots of its letters.
\<close>

theorem ask_word_target:
  assumes "1 < length t"
  shows "result (ask (module_state None) \<lparr>input = user_input, targetLetter = Some t\<rparr>) =
           Inr \<lparr>response = ''For '' @ t @ '', press dot 1.'', error = None\<rparr>
    \<and> (llm_response create
          (completion_request (module_state (Some create))
             \<lparr>input = user_input, targetLetter = Some t\<rparr>) = Inl e \<longrightarrow>
        result (ask (module_state (Some create)) \<lparr>input = user_input, targetLetter = Some t\<rparr>) =
           Inr \<lparr>response = ''For '' @ t @ '', press dot 1.'',
                error = Some (''Error in /ask: '' @ str_exn e)\<rparr>)"
proof -
  from assms have "t \<notin> (\<lambda>c. [c]) ` set uppercase_letters" by auto
  then have "map_of braille_map t = None" by (rule map_of_braille_map_miss)
  moreover from assms have "t \<noteq> []" by auto
  ultimately have fb: "fallback_response braille_map (Some t) = ''For '' @ t @ '', press dot 1.''"
    by (simp add: fallback_response_def lookup_dots_def target_or_unknown_def dict_get_def
        str_int_1)
  have a: "result (ask (module_state None) \<lparr>input = user_input, targetLetter = Some t\<rparr>) =
           Inr \<lparr>response = ''For '' @ t @ '', press dot 1.'', error = None\<rparr>"
    using ask_returned [OF ask_try_no_client, of "module_state None"] fb
    by (simp add: module_state_def)
  have b: "result (ask (module_state (Some create)) \<lparr>input = user_input, targetLetter = Some t\<rparr>) =
           Inr \<lparr>response = ''For '' @ t @ '', press dot 1.'',
                error = Some (''Error in /ask: '' @ str_exn e)\<rparr>"
    if "llm_response create
          (completion_request (module_state (Some create))
             \<lparr>input = user_input, targetLetter = Some t\<rparr>) = Inl e"
  proof -
    have "client_var (module_state (Some create)) = Some create"
      by (simp add: module_state_def)
    with that have "ask_try (module_state (Some create)) \<lparr>input = user_input, targetLetter = Some t\<rparr> =
        ([completion_request (module_state (Some create)) \<lparr>input = user_input, targetLetter = Some t\<rparr>], Inl e)"
      by (simp add: ask_try_client)
    then show ?thesis using fb by (simp add: ask_handled module_state_def)
  qed
  from a b show ?thesis by blast
qed

theorem ask_word_target_witness:
  "1 < length ''CAT''
   \<and> result (ask (module_state None) \<lparr>input = ''spell CAT'', targetLetter = Some ''CAT''\<rparr>) =
       Inr \<lparr>response = ''For CAT, press dot 1.'', error = None\<rparr>
   \<and> result (ask (module_state (Some (\<lambda>req. Inl (CallFailed ''quota''))))
        \<lparr>input = ''spell CAT'', targetLetter = Some ''CAT''\<rparr>) =
       Inr \<lparr>response = ''For CAT, press dot 1.'', error = Some ''Error in /ask: quota''\<rparr>"
proof -
  let ?c = "\<lambda>req::request. (Inl (CallFailed ''quota'') :: exn + completion)"
  have h: "1 < length ''CAT''" by simp
  have f: "llm_response ?c
          (completion_request (module_state (Some ?c))
             \<lparr>input = ''spell CAT'', targetLetter = Some ''CAT''\<rparr>) = Inl (CallFailed ''quota'')"
    by (simp add: llm_response_def)
  have se: "str_exn (CallFailed ''quota'') = ''quota''" by (simp add: str_exn_def)
  from ask_word_target [OF h, of "''spell CAT''" ?c "CallFailed ''quota''"] f se h
  show ?thesis by simp
qed

subsection \<open>An empty target\<close>

lemma fallback_response_unknown:
  "fallback_response bm None = ''For unknown, press dot 1.''"
  "fallback_response bm (Some []) = ''For unknown, press dot 1.''"
  by (simp_all add: fallback_response_def lookup_dots_def target_or_unknown_def str_int_1)

text \<open>
  C9.  On the fallback path (no client, or a completion that failed), for every input
  an empty target and no target both give exactly \<^verbatim>\<open>For unknown, press dot 1.\<close>
\<close>

theorem ask_empty_target:
  "result (ask (module_state None) \<lparr>input = user_input, targetLetter = Some ''''\<rparr>) =
     Inr \<lparr>response = ''For unknown, press dot 1.'', error = None\<rparr>
   \<and> result (ask (module_state None) \<lparr>input = user_input, targetLetter = None\<rparr>) =
     Inr \<lparr>response = ''For unknown, press dot 1.'', error = None\<rparr>
   \<and> (llm_response create
         (completion_request (module_state (Some create))
            \<lparr>input = user_input, targetLetter = Some ''''\<rparr>) = Inl e \<longrightarrow>
       result (ask (module_state (Some create)) \<lparr>input = user_input, targetLetter = Some ''''\<rparr>) =
         Inr \<lparr>response = ''For unknown, press dot 1.'',
              error = Some (''Error in /ask: '' @ str_exn e)\<rparr>)
   \<and> (llm_response create
         (completion_request (module_state (Some create))
            \<lparr>input = user_input, targetLetter = None\<rparr>) = Inl e \<longrightarrow>
       result (ask (module_state (Some create)) \<lparr>input = user_input, targetLetter = None\<rparr>) =
         Inr \<lparr>response = ''For unknown, press dot 1.'',
              error = Some (''Error in /ask: '' @ str_exn e)\<rparr>)"
proof -
  have none: "result (ask (module_state None) \<lparr>input = user_input, targetLetter = tl\<rparr>) =
     Inr \<lparr>response = ''For unknown, press dot 1.'', error = None\<rparr>"
    if "tl = None \<or> tl = Some ''''" for tl
    using that ask_returned [OF ask_try_no_client, of "module_state None"]
    by (auto simp: module_state_def fallback_response_unknown)
  have failed: "result (ask (module_state (Some create)) \<lparr>input = user_input, targetLetter = tl\<rparr>) =
         Inr \<lparr>response = ''For unknown, press dot 1.'',
              error = Some (''Error in /ask: '' @ str_exn e)\<rparr>"
    if "tl = None \<or> tl = Some ''''"
      and "llm_response create
         (completion_request (module_state (Some create))
            \<lparr>input = user_input, targetLetter = tl\<rparr>) = Inl e" for tl
  proof -
    have "client_var (module_state (Some create)) = Some create"
      by (simp add: module_state_def)
    with that(2) have "ask_try (module_state (Some create)) \<lparr>input = user_input, targetLetter = tl\<rparr> =
        ([completion_request (module_state (Some create)) \<lparr>input = user_input, targetLetter = tl\<rparr>], Inl e)"
      by (simp add: ask_try_client)
    then show ?thesis using that(1)
      by (auto simp: ask_handled fallback_response_unknown)
  qed
  from none [of None] none [of "Some ''''"] failed [of None] failed [of "Some ''''"]
  show ?thesis by blast
qed

theorem ask_empty_target_witness:
  "result (ask (module_state (Some (\<lambda>req. Inl (CallFailed ''auth''))))
        \<lparr>input = '''', targetLetter = Some ''''\<rparr>) =
     Inr \<lparr>response = ''For unknown, press dot 1.'', error = Some ''Error in /ask: auth''\<rparr>
   \<and> result (ask (module_state (Some (\<lambda>req. Inl (CallFailed ''auth''))))
        \<lparr>input = '''', targetLetter = None\<rparr>) =
     Inr \<lparr>response = ''For unknown, press dot 1.'', error = Some ''Error in /ask: auth''\<rparr>
   \<and> result (ask (module_state None) \<lparr>input = '''', targetLetter = Some ''''\<rparr>) =
     result (ask (module_state None) \<lparr>input = '''', targetLetter = None\<rparr>)"
proof -
  let ?c = "\<lambda>req::request. (Inl (CallFailed ''auth'') :: exn + completion)"
  have f: "llm_response ?c req = Inl (CallFailed ''auth'')" for req
    by (simp add: llm_response_def)
  have se: "str_exn (CallFailed ''auth'') = ''auth''" by (simp add: str_exn_def)
  from ask_empty_target [of "''''" ?c "CallFailed ''auth''"] f se
  show ?thesis by simp
qed

subsection \<open>Repeated calls\<close>





end
